theory Spec2Isabelle
  imports Complex_Main "HOL-Library.AList"
begin

section \<open>Python values used by the tracker\<close>

text \<open>
  The tracker (\<^verbatim>\<open>src/main.py\<close>) keeps its state in Python lists, dicts and strings and
  computes its percentages with Python floats. This section fixes how those values are
  read here.

  A \<^typ>\<open>char\<close> stands for one code point of a Python \<^verbatim>\<open>str\<close> (the Latin-1 range).
  \<^verbatim>\<open>str.strip()\<close> removes the characters for which \<^verbatim>\<open>str.isspace\<close> holds from both ends.
\<close>

datatype error = KeyError string | ValueError | ZeroDivisionError | OverflowError

definition isspace :: "char \<Rightarrow> bool" where
  "isspace c = (of_char c \<in> set [9, 10, 11, 12, 13, 28, 29, 30, 31, 32, 133, 160 :: nat])"

definition strip :: "string \<Rightarrow> string" where
  "strip s = rev (dropWhile isspace (rev (dropWhile isspace s)))"

subsection \<open>Dicts\<close>

text \<open>
  A Python dict is an association list in insertion order: \<^verbatim>\<open>d[k] = v\<close> overwrites the
  value in place or appends a new pair, \<^verbatim>\<open>d.pop(k, default)\<close> removes the key,
  \<^verbatim>\<open>d.get(k, default)\<close> reads it, \<^verbatim>\<open>k in d\<close> tests it.
\<close>

type_synonym ('k, 'v) dict = "('k \<times> 'v) list"

definition dict_set :: "'k \<Rightarrow> 'v \<Rightarrow> ('k, 'v) dict \<Rightarrow> ('k, 'v) dict" where
  "dict_set k v d = AList.update k v d"

definition dict_get :: "('k, 'v) dict \<Rightarrow> 'k \<Rightarrow> 'v \<Rightarrow> 'v" where
  "dict_get d k dflt = (case map_of d k of None \<Rightarrow> dflt | Some v \<Rightarrow> v)"

definition dict_has :: "('k, 'v) dict \<Rightarrow> 'k \<Rightarrow> bool" where
  "dict_has d k = (map_of d k \<noteq> None)"

definition dict_pop :: "'k \<Rightarrow> 'v \<Rightarrow> ('k, 'v) dict \<Rightarrow> 'v \<times> ('k, 'v) dict" where
  "dict_pop k dflt d = (dict_get d k dflt, AList.delete k d)"

subsection \<open>Floats\<close>

text \<open>
  A Python float is an IEEE 754 binary64 number. A finite one is \<open>m * 2 ^ e\<close> with an
  integer mantissa of at most 53 bits; \<open>Float m e\<close> is that number. Every operation
  returns the exact result rounded to 53 bits, ties to even: \<^verbatim>\<open>a / b\<close> on two ints is the
  correctly rounded quotient (and raises \<^verbatim>\<open>ZeroDivisionError\<close> when \<^verbatim>\<open>b\<close> is 0), \<^verbatim>\<open>x * y\<close>
  the correctly rounded product, \<^verbatim>\<open>int(x)\<close> truncates towards zero.

  The exponent range of binary64 is not modelled: the quotients of this program are 0 or
  lie between \<open>1 / len\<close> and 1 for a list length \<open>len\<close>, and its products between 0 and
  100, far away from overflow and from the subnormal numbers.
\<close>

datatype float = Float (mantissa: int) (exponent: int)

fun bit_length :: "nat \<Rightarrow> nat" where
  "bit_length n = (if n = 0 then 0 else Suc (bit_length (n div 2)))"

declare bit_length.simps [simp del]

definition round_half_even :: "int \<Rightarrow> int \<Rightarrow> int" where
  "round_half_even n d =
     (let q = n div d; r = n mod d
      in if d < 2 * r \<or> (2 * r = d \<and> odd q) then q + 1 else q)"

text \<open>
  \<open>round_to_double n d\<close> is the double nearest to the fraction \<open>n / d\<close> (\<open>0 < d\<close>):
  \<open>k\<close> is the binary exponent of \<open>\<bar>n\<bar> / d\<close>, so that the mantissa
  \<open>n / d / 2 ^ (k - 52)\<close> has 53 bits before it is rounded to an integer.
\<close>

definition round_to_double :: "int \<Rightarrow> int \<Rightarrow> float" where
  "round_to_double n d =
     (if n = 0 then Float 0 0
      else let k = int (bit_length (nat \<bar>n\<bar>)) - int (bit_length (nat d));
               e = (if d * 2 ^ nat k \<le> \<bar>n\<bar> * 2 ^ nat (- k) then k else k - 1) - 52
           in Float (round_half_even (n * 2 ^ nat (- e)) (d * 2 ^ nat e)) e)"

definition true_div :: "int \<Rightarrow> int \<Rightarrow> error + float" where
  "true_div a b =
     (if b = 0 then Inl ZeroDivisionError
      else Inr (round_to_double (a * sgn b) \<bar>b\<bar>))"

definition float_of_int :: "int \<Rightarrow> float" where
  "float_of_int n = round_to_double n 1"

definition float_mul :: "float \<Rightarrow> float \<Rightarrow> float" where
  "float_mul x y =
     (case round_to_double (mantissa x * mantissa y) 1 of
        Float m e \<Rightarrow> Float m (e + exponent x + exponent y))"

definition py_int :: "float \<Rightarrow> int" where
  "py_int x =
     (let m = mantissa x; e = exponent x
      in if 0 \<le> e then m * 2 ^ nat e
         else if 0 \<le> m then m div 2 ^ nat (- e)
         else - ((- m) div 2 ^ nat (- e)))"


text \<open>
  The expression \<^verbatim>\<open>int((c / t) * 100)\<close>, which the tracker uses for every percentage.
\<close>

definition int_percent :: "int \<Rightarrow> int \<Rightarrow> error + int" where
  "int_percent c t =
     (case true_div c t of
        Inl e \<Rightarrow> Inl e
      | Inr q \<Rightarrow> Inr (py_int (float_mul q (float_of_int 100))))"

subsection \<open>Dates\<close>

text \<open>
  A date is its proleptic Gregorian ordinal (\<^verbatim>\<open>date.toordinal()\<close>): day 1 is 0001-01-01
  and day \<open>MAXORDINAL\<close> is 9999-12-31. Adding \<^verbatim>\<open>timedelta(days=i)\<close> adds \<open>i\<close> and raises
  \<^verbatim>\<open>OverflowError\<close> when the result leaves that range. \<open>ord2ymd\<close> follows the function
  of that name in the standard library's \<^verbatim>\<open>datetime\<close>. \<open>strftime\<close> is
  \<^verbatim>\<open>strftime("%Y-%m-%d")\<close> as the C library prints it: the year without padding, month and
  day with two digits. \<open>weekday\<close> is 0 on a Monday.
\<close>

definition MAXORDINAL :: int where
  "MAXORDINAL = 3652059"

definition add_days :: "int \<Rightarrow> int \<Rightarrow> error + int" where
  "add_days date days =
     (if 1 \<le> date + days \<and> date + days \<le> MAXORDINAL then Inr (date + days)
      else Inl OverflowError)"

definition DAYS_IN_MONTH :: "int list" where
  "DAYS_IN_MONTH = [-1, 31, 28, 31, 30, 31, 30, 31, 31, 30, 31, 30, 31]"

definition DAYS_BEFORE_MONTH :: "int list" where
  "DAYS_BEFORE_MONTH = [-1, 0, 31, 59, 90, 120, 151, 181, 212, 243, 273, 304, 334]"

definition ord2ymd :: "int \<Rightarrow> int \<times> int \<times> int" where
  "ord2ymd ordinal =
     (let n = ordinal - 1;
          n400 = n div 146097; n = n mod 146097;
          n100 = n div 36524; n = n mod 36524;
          n4 = n div 1461; n = n mod 1461;
          n1 = n div 365; n = n mod 365;
          year = n400 * 400 + 1 + n100 * 100 + n4 * 4 + n1
      in if n1 = 4 \<or> n100 = 4 then (year - 1, 12, 31)
         else
           let leapyear = (n1 = 3 \<and> (n4 \<noteq> 24 \<or> n100 = 3));
               month = (n + 50) div 32;
               preceding = DAYS_BEFORE_MONTH ! nat month
                           + (if 2 < month \<and> leapyear then 1 else 0)
           in if n < preceding
              then let month = month - 1;
                       preceding = preceding - (DAYS_IN_MONTH ! nat month
                                     + (if month = 2 \<and> leapyear then 1 else 0))
                   in (year, month, n - preceding + 1)
              else (year, month, n - preceding + 1))"

definition digit :: "int \<Rightarrow> char" where
  "digit n = char_of (48 + nat (n mod 10))"

fun decimal :: "nat \<Rightarrow> string" where
  "decimal n = (if n < 10 then [digit (int n)] else decimal (n div 10) @ [digit (int n)])"

declare decimal.simps [simp del]

definition strftime :: "int \<Rightarrow> string" where
  "strftime ordinal =
     (case ord2ymd ordinal of
        (y, m, d) \<Rightarrow>
          decimal (nat y) @ ''-'' @ [digit (m div 10), digit m]
          @ ''-'' @ [digit (d div 10), digit d])"

definition weekday :: "int \<Rightarrow> int" where
  "weekday ordinal = (ordinal + 6) mod 7"

text \<open>\<^verbatim>\<open>get_week_start\<close>: \<^verbatim>\<open>date - timedelta(days=date.weekday())\<close>.\<close>

definition get_week_start :: "int \<Rightarrow> error + int" where
  "get_week_start date = add_days date (- weekday date)"

section \<open>The store\<close>

text \<open>
  One day's entry of \<^verbatim>\<open>daily_data\<close> has the keys \<^verbatim>\<open>"tasks"\<close>, \<^verbatim>\<open>"task_status"\<close> and
  \<^verbatim>\<open>"habits"\<close>; the last is the field \<open>day_habits\<close> here, since \<open>habits\<close> names the global
  habit list \<^verbatim>\<open>self.habits\<close>. The tracker's state is \<^verbatim>\<open>self.daily_data\<close>,
  \<^verbatim>\<open>self.habits\<close>, \<^verbatim>\<open>self.task_templates\<close> and \<^verbatim>\<open>self.week_start_date\<close>.
\<close>

record day_record =
  tasks :: "string list"
  task_status :: "(string, bool) dict"
  day_habits :: "(string, bool) dict"

record tracker =
  daily_data :: "(string, day_record) dict"
  habits :: "string list"
  task_templates :: "string list"
  week_start_date :: int

text \<open>
  The key of the \<open>i\<close>-th day of the displayed week:
  \<^verbatim>\<open>(self.week_start_date + timedelta(days=i)).strftime("%Y-%m-%d")\<close>.
\<close>

definition week_date :: "tracker \<Rightarrow> nat \<Rightarrow> error + string" where
  "week_date s i =
     (case add_days (week_start_date s) (int i) of
        Inl e \<Rightarrow> Inl e
      | Inr date \<Rightarrow> Inr (strftime date))"

section \<open>Derived metrics\<close>

text \<open>
  \<^verbatim>\<open>update_all_charts\<close>, \<^verbatim>\<open>update_bar_chart\<close> and \<^verbatim>\<open>create_bar_chart_section\<close> compute a
  day's percentage with the same four lines:
  \<^verbatim>\<open>
  tasks = self.daily_data[date]["tasks"]
  completed = sum(1 for t in tasks if self.daily_data[date]["task_status"].get(t, False))
  total = len(tasks) if tasks else 1
  percent = int((completed / total) * 100)
  \<close>
\<close>

definition completed_count :: "day_record \<Rightarrow> nat" where
  "completed_count r = length (filter (\<lambda>t. dict_get (task_status r) t False) (tasks r))"

definition day_percent :: "day_record \<Rightarrow> error + int" where
  "day_percent r =
     (let completed = completed_count r;
          total = (if tasks r \<noteq> [] then length (tasks r) else 1)
      in int_percent (int completed) (int total))"

text \<open>The bar chart shows 0 for a date of the week that has no entry.\<close>

definition bar_percent :: "tracker \<Rightarrow> nat \<Rightarrow> error + int" where
  "bar_percent s i =
     (case week_date s i of
        Inl e \<Rightarrow> Inl e
      | Inr date \<Rightarrow>
          (case map_of (daily_data s) date of
             Some r \<Rightarrow> day_percent r
           | None \<Rightarrow> Inr 0))"

text \<open>
  The weekly figure of \<^verbatim>\<open>update_bar_chart\<close> and \<^verbatim>\<open>create_bar_chart_section\<close>:
  \<^verbatim>\<open>
  total_tasks = 0
  completed_tasks = 0
  for i in range(7):
      date = (self.week_start_date + timedelta(days=i)).strftime("%Y-%m-%d")
      if date in self.daily_data:
          tasks = self.daily_data[date]["tasks"]
          total_tasks += len(tasks)
          completed_tasks += sum(1 for t in tasks if ...get(t, False))
  weekly_percent = int((completed_tasks / total_tasks * 100)) if total_tasks > 0 else 0
  \<close>
\<close>

fun weekly_loop :: "tracker \<Rightarrow> nat list \<Rightarrow> nat \<times> nat \<Rightarrow> error + nat \<times> nat" where
  "weekly_loop s [] (total_tasks, completed_tasks) = Inr (total_tasks, completed_tasks)"
| "weekly_loop s (i # rest) (total_tasks, completed_tasks) =
     (case week_date s i of
        Inl e \<Rightarrow> Inl e
      | Inr date \<Rightarrow>
          (case map_of (daily_data s) date of
             Some r \<Rightarrow>
               weekly_loop s rest
                 (total_tasks + length (tasks r), completed_tasks + completed_count r)
           | None \<Rightarrow> weekly_loop s rest (total_tasks, completed_tasks)))"

definition weekly_counts :: "tracker \<Rightarrow> error + nat \<times> nat" where
  "weekly_counts s = weekly_loop s [0..<7] (0, 0)"

definition weekly_percent :: "tracker \<Rightarrow> error + int" where
  "weekly_percent s =
     (case weekly_counts s of
        Inl e \<Rightarrow> Inl e
      | Inr (total_tasks, completed_tasks) \<Rightarrow>
          if 0 < total_tasks then int_percent (int completed_tasks) (int total_tasks)
          else Inr 0)"







section \<open>Operations\<close>

text \<open>
  A handler that can leave by an exception returns how it left together with the store
  as it is at that moment (the store is mutated in place, so what was written before a
  \<^verbatim>\<open>raise\<close> stays written). Logging and the redrawing of widgets are left out; the
  text of an entry widget or of an input dialog and the answer to a confirmation box are
  arguments.
\<close>

datatype outcome = Returned | Raised error

subsection \<open>\<^verbatim>\<open>initialize_week_data\<close>\<close>

definition all_false :: "string list \<Rightarrow> (string, bool) dict" where
  "all_false names = fold (\<lambda>n d. dict_set n False d) names []"

definition ensure_habits :: "string list \<Rightarrow> (string, bool) dict \<Rightarrow> (string, bool) dict" where
  "ensure_habits hs d = fold (\<lambda>habit d. if \<not> dict_has d habit then dict_set habit False d else d) hs d"

definition initialize_day :: "string \<Rightarrow> tracker \<Rightarrow> tracker" where
  "initialize_day date s =
     (case map_of (daily_data s) date of
        None \<Rightarrow>
          s\<lparr>daily_data :=
              dict_set date
                \<lparr>tasks = task_templates s,
                 task_status = all_false (task_templates s),
                 day_habits = all_false (habits s)\<rparr>
                (daily_data s)\<rparr>
      | Some r \<Rightarrow>
          s\<lparr>daily_data :=
              dict_set date (r\<lparr>day_habits := ensure_habits (habits s) (day_habits r)\<rparr>)
                (daily_data s)\<rparr>)"

fun initialize_days :: "nat list \<Rightarrow> tracker \<Rightarrow> outcome \<times> tracker" where
  "initialize_days [] s = (Returned, s)"
| "initialize_days (i # rest) s =
     (case week_date s i of
        Inl e \<Rightarrow> (Raised e, s)
      | Inr date \<Rightarrow> initialize_days rest (initialize_day date s))"

definition initialize_week_data :: "tracker \<Rightarrow> outcome \<times> tracker" where
  "initialize_week_data s = initialize_days [0..<7] s"

text \<open>
  \<^verbatim>\<open>__init__\<close> sets \<^verbatim>\<open>week_start_date\<close> from today's date and then initializes the week.
\<close>

definition initializeWeek :: "int \<Rightarrow> tracker \<Rightarrow> outcome \<times> tracker" where
  "initializeWeek today s =
     (case get_week_start today of
        Inl e \<Rightarrow> (Raised e, s)
      | Inr week_start \<Rightarrow> initialize_week_data (s\<lparr>week_start_date := week_start\<rparr>))"

text \<open>What initialization leaves under a date: a new record, or the old one reconciled.\<close>

definition fresh_day :: "tracker \<Rightarrow> day_record" where
  "fresh_day s = \<lparr>tasks = task_templates s, task_status = all_false (task_templates s),
                  day_habits = all_false (habits s)\<rparr>"

definition init_record :: "tracker \<Rightarrow> day_record option \<Rightarrow> day_record" where
  "init_record s ro =
     (case ro of
        None \<Rightarrow> fresh_day s
      | Some r \<Rightarrow> r\<lparr>day_habits := ensure_habits (habits s) (day_habits r)\<rparr>)"

subsection \<open>\<^verbatim>\<open>update_habit\<close>, \<^verbatim>\<open>update_task\<close>\<close>

text \<open>
  \<^verbatim>\<open>
  def update_habit(self, habit, date, var):
      status = bool(var.get())
      self.daily_data[date]["habits"][habit] = status
  \<close>
  The subscript \<^verbatim>\<open>self.daily_data[date]\<close> raises \<^verbatim>\<open>KeyError\<close> when the date has no entry;
  neither handler catches it.
\<close>

definition update_habit :: "string \<Rightarrow> string \<Rightarrow> bool \<Rightarrow> tracker \<Rightarrow> outcome \<times> tracker" where
  "update_habit habit date status s =
     (case map_of (daily_data s) date of
        None \<Rightarrow> (Raised (KeyError date), s)
      | Some r \<Rightarrow>
          (Returned,
           s\<lparr>daily_data :=
               dict_set date (r\<lparr>day_habits := dict_set habit status (day_habits r)\<rparr>)
                 (daily_data s)\<rparr>))"

definition update_task :: "string \<Rightarrow> string \<Rightarrow> bool \<Rightarrow> tracker \<Rightarrow> outcome \<times> tracker" where
  "update_task task date status s =
     (case map_of (daily_data s) date of
        None \<Rightarrow> (Raised (KeyError date), s)
      | Some r \<Rightarrow>
          (Returned,
           s\<lparr>daily_data :=
               dict_set date (r\<lparr>task_status := dict_set task status (task_status r)\<rparr>)
                 (daily_data s)\<rparr>))"

subsection \<open>Adding habits and tasks\<close>

text \<open>\<^verbatim>\<open>for date in self.daily_data: ...\<close> changes every entry, in the dict's order.\<close>

definition for_each_day :: "(day_record \<Rightarrow> day_record) \<Rightarrow> tracker \<Rightarrow> tracker" where
  "for_each_day f s = s\<lparr>daily_data := map (\<lambda>(date, r). (date, f r)) (daily_data s)\<rparr>"

definition add_habit_global :: "string \<Rightarrow> tracker \<Rightarrow> tracker" where
  "add_habit_global entry s =
     (let text = strip entry
      in if text = [] then s
         else if text \<in> set (habits s) then s
         else for_each_day (\<lambda>r. r\<lparr>day_habits := dict_set text False (day_habits r)\<rparr>)
                (s\<lparr>habits := habits s @ [text]\<rparr>))"

definition add_habit_inline :: "string \<Rightarrow> tracker \<Rightarrow> tracker" where
  "add_habit_inline entry s =
     (let new_habit = strip entry
      in if new_habit \<noteq> [] then
           if new_habit \<in> set (habits s) then s
           else for_each_day (\<lambda>r. r\<lparr>day_habits := dict_set new_habit False (day_habits r)\<rparr>)
                  (s\<lparr>habits := habits s @ [new_habit]\<rparr>)
         else s)"

definition add_task_template :: "string \<Rightarrow> tracker \<Rightarrow> tracker" where
  "add_task_template entry s =
     (let text = strip entry
      in if text = [] then s
         else if text \<in> set (task_templates s) then s
         else for_each_day
                (\<lambda>r. r\<lparr>tasks := tasks r @ [text],
                        task_status := dict_set text False (task_status r)\<rparr>)
                (s\<lparr>task_templates := task_templates s @ [text]\<rparr>))"

text \<open>
  \<^verbatim>\<open>add_task_to_day\<close>: the dialog returns \<^verbatim>\<open>None\<close> when it is cancelled; the subscript
  \<^verbatim>\<open>self.daily_data[date]\<close> raises \<^verbatim>\<open>KeyError\<close> for a date without an entry.
\<close>

definition add_task_to_day :: "string \<Rightarrow> string option \<Rightarrow> tracker \<Rightarrow> outcome \<times> tracker" where
  "add_task_to_day date dialog_input s =
     (case dialog_input of
        None \<Rightarrow> (Returned, s)
      | Some new_task \<Rightarrow>
          if new_task \<noteq> [] \<and> strip new_task \<noteq> [] then
            (case map_of (daily_data s) date of
               None \<Rightarrow> (Raised (KeyError date), s)
             | Some r \<Rightarrow>
                 if strip new_task \<in> set (tasks r) then (Returned, s)
                 else (Returned,
                       s\<lparr>daily_data :=
                           dict_set date
                             (r\<lparr>tasks := tasks r @ [strip new_task],
                                task_status := dict_set (strip new_task) False (task_status r)\<rparr>)
                             (daily_data s)\<rparr>))
          else (Returned, s))"

subsection \<open>\<^verbatim>\<open>edit_habit\<close>, \<^verbatim>\<open>delete_habit\<close>\<close>

text \<open>
  \<^verbatim>\<open>list.index(x)\<close> is the position of the first \<^verbatim>\<open>x\<close> and raises \<^verbatim>\<open>ValueError\<close> when there
  is none; \<^verbatim>\<open>list.remove(x)\<close> removes the first \<^verbatim>\<open>x\<close>.
\<close>

fun index :: "'a list \<Rightarrow> 'a \<Rightarrow> error + nat" where
  "index [] x = Inl ValueError"
| "index (y # ys) x =
     (if y = x then Inr 0
      else case index ys x of Inl e \<Rightarrow> Inl e | Inr i \<Rightarrow> Inr (Suc i))"

text \<open>
  \<^verbatim>\<open>
  def edit_habit(self, old_habit):
      try:
          new_habit = dialog.get_input()
          if new_habit and new_habit.strip() and new_habit != old_habit:
              new_habit = new_habit.strip()
              if new_habit in self.habits:
                  return # Already exists
              idx = self.habits.index(old_habit)
              self.habits[idx] = new_habit
              for date in self.daily_data:
                  val = self.daily_data[date]["habits"].pop(old_habit, False)
                  self.daily_data[date]["habits"][new_habit] = val
      except Exception as e:
          logger.error(...)
  \<close>
  The \<^verbatim>\<open>ValueError\<close> of \<^verbatim>\<open>index\<close> is caught and logged, before anything was written.
\<close>

definition rename_key :: "string \<Rightarrow> string \<Rightarrow> (string, bool) dict \<Rightarrow> (string, bool) dict" where
  "rename_key old_habit new_habit d =
     (case dict_pop old_habit False d of (val, d') \<Rightarrow> dict_set new_habit val d')"

definition edit_habit :: "string \<Rightarrow> string option \<Rightarrow> tracker \<Rightarrow> tracker" where
  "edit_habit old_habit dialog_input s =
     (case dialog_input of
        None \<Rightarrow> s
      | Some new_habit \<Rightarrow>
          if new_habit \<noteq> [] \<and> strip new_habit \<noteq> [] \<and> new_habit \<noteq> old_habit then
            if strip new_habit \<in> set (habits s) then s
            else (case index (habits s) old_habit of
                    Inl e \<Rightarrow> s
                  | Inr idx \<Rightarrow>
                      for_each_day
                        (\<lambda>r. r\<lparr>day_habits := rename_key old_habit (strip new_habit) (day_habits r)\<rparr>)
                        (s\<lparr>habits := (habits s)[idx := strip new_habit]\<rparr>))
          else s)"

text \<open>
  \<^verbatim>\<open>
  def delete_habit(self, habit):
      if habit in self.habits:
          confirm = messagebox.askyesno(...)
          if confirm:
              self.habits.remove(habit)
              for date in self.daily_data:
                  self.daily_data[date]["habits"].pop(habit, None)
  \<close>
\<close>

definition delete_habit :: "string \<Rightarrow> bool \<Rightarrow> tracker \<Rightarrow> tracker" where
  "delete_habit habit confirm s =
     (if habit \<in> set (habits s) then
        if confirm then
          for_each_day (\<lambda>r. r\<lparr>day_habits := AList.delete habit (day_habits r)\<rparr>)
            (s\<lparr>habits := remove1 habit (habits s)\<rparr>)
        else s
      else s)"

section \<open>Example stores\<close>

text \<open>
  The week of Monday 2024-06-03 (ordinal 739040) with two days entered; Tuesday has the
  day-specific task \<^verbatim>\<open>Shop\<close>.
\<close>

definition june_week :: tracker where
  "june_week =
     \<lparr>daily_data =
        [(''2024-06-03'',
          \<lparr>tasks = [''A'', ''B'', ''C''],
           task_status = [(''A'', True), (''B'', True), (''C'', False)],
           day_habits = [(''Sleep'', True), (''Read'', False)]\<rparr>),
         (''2024-06-04'',
          \<lparr>tasks = [''A'', ''Shop''],
           task_status = [(''A'', False), (''Shop'', True)],
           day_habits = [(''Sleep'', False), (''Read'', True)]\<rparr>)],
      habits = [''Sleep'', ''Read''],
      task_templates = [''A'', ''B'', ''C''],
      week_start_date = 739040\<rparr>"

text \<open>A day that still carries the key of a habit that is not in the global list.\<close>

definition orphan_day :: day_record where
  "orphan_day = \<lparr>tasks = [''A''], task_status = [(''A'', True)],
                  day_habits = [(''Sleep'', False), (''Read'', True)]\<rparr>"

definition orphan_store :: tracker where
  "orphan_store = \<lparr>daily_data = [(''2024-06-03'', orphan_day)], habits = [''Sleep''],
                    task_templates = [''A''], week_start_date = 739040\<rparr>"

text \<open>A data file whose habit name starts with a space.\<close>

definition untrimmed_store :: tracker where
  "untrimmed_store =
     \<lparr>daily_data = [(''2024-06-03'',
                      \<lparr>tasks = [], task_status = [], day_habits = [('' Sleep'', True)]\<rparr>)],
      habits = ['' Sleep''], task_templates = [], week_start_date = 739040\<rparr>"

text \<open>
  A store from before the habits \<^verbatim>\<open>Sleep\<close> and \<^verbatim>\<open>Read\<close> were added: its Monday has
  its own task and the flag of a habit that is no longer listed.
\<close>

definition stale_day :: day_record where
  "stale_day = \<lparr>tasks = [''X''], task_status = [(''X'', True)], day_habits = [(''Old'', True)]\<rparr>"

definition stale_week :: tracker where
  "stale_week = \<lparr>daily_data = [(''2024-06-03'', stale_day)], habits = [''Sleep'', ''Read''],
                   task_templates = [''A''], week_start_date = 0\<rparr>"

text \<open>A data file that lists one habit twice.\<close>

definition duplicate_store :: tracker where
  "duplicate_store = \<lparr>daily_data = [], habits = [''Gym'', ''Gym''], task_templates = [],
                       week_start_date = 739040\<rparr>"

text \<open>A day with fifty tasks, \<^verbatim>\<open>A\<close> to \<^verbatim>\<open>x\<close>, of which the first 29 are done.\<close>

definition alphabet :: string where
  "alphabet = ''ABCDEFGHIJKLMNOPQRSTUVWXYZabcdefghijklmnopqrstuvwx''"

definition busy_day :: day_record where
  "busy_day = \<lparr>tasks = map (\<lambda>c. [c]) alphabet,
                task_status = map (\<lambda>c. ([c], True)) (take 29 alphabet),
                day_habits = []\<rparr>"

text \<open>
  A whole week, Monday 2024-06-03 to Sunday 2024-06-09, with seven tasks a day and an
  eighth on Monday: 50 tasks, of which 7 + 7 + 7 + 4 + 4 = 29 are done. \<^verbatim>\<open>Sleep\<close> is
  ticked on Monday, Tuesday and Wednesday.
\<close>

definition letters :: "string list" where
  "letters = [''A'', ''B'', ''C'', ''D'', ''E'', ''F'', ''G'']"

definition all_done :: day_record where
  "all_done = \<lparr>tasks = letters, task_status = map (\<lambda>t. (t, True)) letters,
                day_habits = [(''Sleep'', True), (''Read'', False)]\<rparr>"

definition half_done :: day_record where
  "half_done = \<lparr>tasks = letters,
                 task_status = [(''A'', True), (''B'', True), (''C'', True), (''D'', True),
                                (''E'', False), (''F'', False), (''G'', False)],
                 day_habits = [(''Sleep'', False), (''Read'', True)]\<rparr>"

definition none_done :: day_record where
  "none_done = \<lparr>tasks = letters, task_status = map (\<lambda>t. (t, False)) letters,
                 day_habits = [(''Sleep'', False), (''Read'', False)]\<rparr>"

definition full_week :: tracker where
  "full_week =
     \<lparr>daily_data =
        [(''2024-06-03'', all_done\<lparr>tasks := letters @ [''H'']\<rparr>),
         (''2024-06-04'', all_done),
         (''2024-06-05'', all_done),
         (''2024-06-06'', half_done),
         (''2024-06-07'', half_done),
         (''2024-06-08'', none_done),
         (''2024-06-09'', none_done)],
      habits = [''Sleep'', ''Read''], task_templates = letters, week_start_date = 739040\<rparr>"

section \<open>Properties\<close>

subsection \<open>Dicts, lists and strings\<close>

lemma map_of_dict_set: "map_of (dict_set k v d) = (map_of d)(k \<mapsto> v)"
  by (simp add: dict_set_def update_conv')

lemma map_of_for_each_day:
  "map_of (daily_data (for_each_day f s)) date = map_option f (map_of (daily_data s) date)"
  by (simp add: for_each_day_def map_of_map)

lemma map_of_for_each_day_habits:
  "map_of (daily_data (for_each_day f (s\<lparr>habits := hs\<rparr>))) date
     = map_option f (map_of (daily_data s) date)"
  by (simp add: map_of_for_each_day)

lemma for_each_day_fields:
  "habits (for_each_day f s) = habits s"
  "task_templates (for_each_day f s) = task_templates s"
  "week_start_date (for_each_day f s) = week_start_date s"
  by (simp_all add: for_each_day_def)

lemma strip_blank: "\<forall>c\<in>set xs. isspace c \<Longrightarrow> strip xs = []"
proof -
  assume "\<forall>c\<in>set xs. isspace c"
  then have blank: "dropWhile isspace xs = []" by (induction xs) simp_all
  show ?thesis unfolding strip_def blank by simp
qed

lemma remove1_keeps_others:
  "filter (\<lambda>h. h \<noteq> x) (remove1 x xs) = filter (\<lambda>h. h \<noteq> x) xs"
  by (induction xs) auto

lemma index_found:
  "x \<in> set xs \<Longrightarrow> \<exists>i. index xs x = Inr i \<and> i < length xs \<and> xs ! i = x"
  by (induction xs) auto

lemma index_bound:
  "index xs a = Inr i \<Longrightarrow> i < length xs \<and> xs ! i = a"
  by (induction xs arbitrary: i) (auto split: if_splits sum.splits)

lemma index_of_replaced:
  "index xs a = Inr i \<Longrightarrow> b \<notin> set xs \<Longrightarrow> index (xs[i := b]) b = Inr i"
  by (induction xs arbitrary: i) (auto split: if_splits sum.splits)

lemma distinct_replaced:
  "distinct xs \<Longrightarrow> index xs a = Inr i \<Longrightarrow> a \<noteq> b \<Longrightarrow> a \<notin> set (xs[i := b])"
  by (induction xs arbitrary: i) (auto split: if_splits sum.splits)

subsection \<open>Toggling a habit or a task on a date without an entry\<close>

text \<open>
  C3 (as the code has it): for a date that is not a key of \<^verbatim>\<open>daily_data\<close>, \<^verbatim>\<open>update_habit\<close>
  and \<^verbatim>\<open>update_task\<close> leave by \<^verbatim>\<open>KeyError\<close>, raised by the subscript before anything is
  written, so the store is unchanged.
\<close>

theorem update_missing_date_raises:
  "map_of (daily_data s) date = None \<Longrightarrow>
     update_habit habit date status s = (Raised (KeyError date), s) \<and>
     update_task task date status s = (Raised (KeyError date), s)"
  by (simp add: update_habit_def update_task_def)

theorem update_missing_date_raises_witness:
  "map_of (daily_data june_week) ''2024-06-05'' = None \<and>
   update_habit ''Sleep'' ''2024-06-05'' True june_week = (Raised (KeyError ''2024-06-05''), june_week) \<and>
   update_task ''A'' ''2024-06-05'' True june_week = (Raised (KeyError ''2024-06-05''), june_week)"
proof -
  have h: "map_of (daily_data june_week) ''2024-06-05'' = None"
    by (simp add: june_week_def)
  show ?thesis
    using h update_missing_date_raises [OF h, of "''Sleep''" True "''A''"] by simp
qed

text \<open>
  The toggle is therefore not silent: on Wednesday, which \<open>june_week\<close> has no entry for,
  the handler raises.
\<close>

theorem update_habit_missing_date_counterexample:
  "map_of (daily_data june_week) ''2024-06-05'' = None \<and>
   fst (update_habit ''Sleep'' ''2024-06-05'' True june_week) = Raised (KeyError ''2024-06-05'')"
  by (simp add: update_habit_def june_week_def)

subsection \<open>Adding habits\<close>

text \<open>
  C10: for an entry text that is empty or consists of whitespace only, \<^verbatim>\<open>add_habit_global\<close>
  and \<^verbatim>\<open>add_habit_inline\<close> return with the whole store unchanged.
\<close>

theorem add_habit_blank_is_noop:
  "\<forall>c\<in>set entry. isspace c \<Longrightarrow>
     add_habit_global entry s = s \<and> add_habit_inline entry s = s"
  by (simp add: add_habit_global_def add_habit_inline_def strip_blank)

theorem add_habit_blank_is_noop_witness:
  "list_all isspace ''  '' \<and> add_habit_global ''  '' june_week = june_week
     \<and> add_habit_inline ''  '' june_week = june_week"
  using add_habit_blank_is_noop [of "''  ''" june_week] by (simp add: isspace_def)

text \<open>
  C6 (as the code has it): adding the trimmed non-empty name \<open>x\<close> a second time changes
  nothing in the store, whatever the store; and where the global habit list held \<open>x\<close> at
  most once before, it holds \<open>x\<close> exactly once after the two calls.
\<close>

theorem add_habit_twice:
  assumes "strip x = x" and "x \<noteq> []"
  shows "add_habit_global x (add_habit_global x s) = add_habit_global x s
         \<and> (count_list (habits s) x \<le> 1 \<longrightarrow>
              count_list (habits (add_habit_global x (add_habit_global x s))) x = 1)"
proof -
  have "x \<in> set (habits (add_habit_global x s))"
    using assms by (simp add: add_habit_global_def for_each_day_fields)
  then have noop: "add_habit_global x (add_habit_global x s) = add_habit_global x s"
    using assms by (simp add: add_habit_global_def [of x "add_habit_global x s"])
  have once: "count_list (habits (add_habit_global x s)) x = 1"
    if le: "count_list (habits s) x \<le> 1"
  proof (cases "x \<in> set (habits s)")
    case True
    then have "count_list (habits s) x \<noteq> 0" by (simp add: count_list_0_iff)
    with le have "count_list (habits s) x = 1" by simp
    with assms True show ?thesis by (simp add: add_habit_global_def)
  next
    case False
    then have "count_list (habits s) x = 0" by (simp add: count_list_0_iff)
    with assms False show ?thesis
      by (simp add: add_habit_global_def for_each_day_fields)
  qed
  from once noop show ?thesis by simp
qed

theorem add_habit_twice_witness:
  "strip ''Gym'' = ''Gym'' \<and> count_list (habits june_week) ''Gym'' \<le> 1
   \<and> habits (add_habit_global ''Gym'' (add_habit_global ''Gym'' june_week)) = [''Sleep'', ''Read'', ''Gym'']
   \<and> count_list (habits (add_habit_global ''Gym'' (add_habit_global ''Gym'' june_week))) ''Gym'' = 1
   \<and> add_habit_global ''Gym'' (add_habit_global ''Gym'' june_week) = add_habit_global ''Gym'' june_week"
proof -
  have h1: "strip ''Gym'' = ''Gym''" by code_simp
  have h2: "''Gym'' \<noteq> []" by simp
  have h3: "count_list (habits june_week) ''Gym'' \<le> 1" by (simp add: june_week_def)
  have "habits (add_habit_global ''Gym'' june_week) = [''Sleep'', ''Read'', ''Gym'']"
    by code_simp
  with add_habit_twice [OF h1 h2, of june_week] h1 h3 show ?thesis by simp
qed

text \<open>
  A list that already holds the name twice keeps both: the two calls change nothing in
  \<open>duplicate_store\<close>.
\<close>

theorem add_habit_twice_duplicate_counterexample:
  "strip ''Gym'' = ''Gym''
   \<and> count_list (habits (add_habit_global ''Gym'' (add_habit_global ''Gym'' duplicate_store))) ''Gym'' = 2"
  by code_simp

subsection \<open>Adding a task template\<close>

text \<open>
  C9: \<^verbatim>\<open>add_task_template\<close> checks the name against \<^verbatim>\<open>task_templates\<close> only and appends
  it to every day's task list. So where the name is new to the templates but already a
  task of some day, that day's list ends with a second copy, the name occurs (at least)
  twice, and the day's denominator \<^verbatim>\<open>len(tasks)\<close> grows by one.
\<close>

theorem add_task_template_doubles_day_task:
  assumes "strip entry \<noteq> []" and "strip entry \<notin> set (task_templates s)"
    and "map_of (daily_data s) date = Some r" and "strip entry \<in> set (tasks r)"
  shows "\<exists>r'. map_of (daily_data (add_task_template entry s)) date = Some r'
           \<and> tasks r' = tasks r @ [strip entry]
           \<and> count_list (tasks r') (strip entry) = count_list (tasks r) (strip entry) + 1
           \<and> 2 \<le> count_list (tasks r') (strip entry)
           \<and> day_percent r' = int_percent (int (completed_count r')) (int (length (tasks r)) + 1)"
proof -
  let ?f = "\<lambda>r. r\<lparr>tasks := tasks r @ [strip entry],
                  task_status := dict_set (strip entry) False (task_status r)\<rparr>"
  have "map_of (daily_data (add_task_template entry s)) date = Some (?f r)"
    using assms by (simp add: add_task_template_def map_of_for_each_day Let_def)
  moreover have "0 < count_list (tasks r) (strip entry)"
    using assms(4) count_list_0_iff [of "tasks r" "strip entry"] by simp
  ultimately show ?thesis
    by (simp add: day_percent_def add.commute)
qed

theorem add_task_template_doubles_day_task_witness:
  "strip ''Shop'' \<noteq> [] \<and> strip ''Shop'' \<notin> set (task_templates june_week)
   \<and> (\<exists>r r'. map_of (daily_data june_week) ''2024-06-04'' = Some r
         \<and> strip ''Shop'' \<in> set (tasks r)
         \<and> map_of (daily_data (add_task_template ''Shop'' june_week)) ''2024-06-04'' = Some r'
         \<and> tasks r' = [''A'', ''Shop'', ''Shop'']
         \<and> count_list (tasks r') ''Shop'' = 2)"
proof -
  let ?r = "\<lparr>tasks = [''A'', ''Shop''], task_status = [(''A'', False), (''Shop'', True)],
             day_habits = [(''Sleep'', False), (''Read'', True)]\<rparr>"
  have st: "strip ''Shop'' = ''Shop''" by (simp add: strip_def isspace_def)
  have h1: "strip ''Shop'' \<noteq> []" and h2: "strip ''Shop'' \<notin> set (task_templates june_week)"
    and h3: "map_of (daily_data june_week) ''2024-06-04'' = Some ?r"
    and h4: "strip ''Shop'' \<in> set (tasks ?r)"
    by (simp_all add: st june_week_def)
  from add_task_template_doubles_day_task [OF h1 h2 h3 h4] h1 h2 h3 h4 show ?thesis
    by (auto simp add: st)
qed

subsection \<open>Deleting a habit\<close>

text \<open>
  C8 (as the code has it): \<^verbatim>\<open>delete_habit\<close> acts only when the name is in the global habit
  list and the user confirms. Then it removes the name's first occurrence from the list
  (its only one when the names are unique), keeps the other habits in their order, removes
  the key from every day, and leaves every other habit flag, every task list and task
  status, the set of dates and the task templates as they were. When the name is not in
  the list, or the user declines, the store is unchanged.
\<close>

theorem delete_habit_effect:
  "(habit \<notin> set (habits s) \<or> \<not> confirm \<longrightarrow> delete_habit habit confirm s = s) \<and>
   (habit \<in> set (habits s) \<longrightarrow>
      habits (delete_habit habit True s) = remove1 habit (habits s)
      \<and> (distinct (habits s) \<longrightarrow> habit \<notin> set (habits (delete_habit habit True s)))
      \<and> filter (\<lambda>h. h \<noteq> habit) (habits (delete_habit habit True s))
          = filter (\<lambda>h. h \<noteq> habit) (habits s)
      \<and> task_templates (delete_habit habit True s) = task_templates s
      \<and> map fst (daily_data (delete_habit habit True s)) = map fst (daily_data s)
      \<and> (\<forall>date r. map_of (daily_data s) date = Some r \<longrightarrow>
            (\<exists>r'. map_of (daily_data (delete_habit habit True s)) date = Some r'
                  \<and> tasks r' = tasks r \<and> task_status r' = task_status r
                  \<and> map_of (day_habits r') habit = None
                  \<and> (\<forall>h. h \<noteq> habit \<longrightarrow> map_of (day_habits r') h = map_of (day_habits r) h))))"
proof (intro conjI impI)
  assume "habit \<notin> set (habits s) \<or> \<not> confirm"
  then show "delete_habit habit confirm s = s"
    by (auto simp add: delete_habit_def)
next
  assume "habit \<in> set (habits s)"
  then have eq: "delete_habit habit True s =
      for_each_day (\<lambda>r. r\<lparr>day_habits := AList.delete habit (day_habits r)\<rparr>)
        (s\<lparr>habits := remove1 habit (habits s)\<rparr>)"
    by (simp add: delete_habit_def)
  show "habits (delete_habit habit True s) = remove1 habit (habits s)"
    by (simp add: eq for_each_day_fields)
  show "filter (\<lambda>h. h \<noteq> habit) (habits (delete_habit habit True s))
          = filter (\<lambda>h. h \<noteq> habit) (habits s)"
    by (simp add: eq for_each_day_fields remove1_keeps_others)
  show "task_templates (delete_habit habit True s) = task_templates s"
    by (simp add: eq for_each_day_fields)
  show "map fst (daily_data (delete_habit habit True s)) = map fst (daily_data s)"
    by (simp add: eq for_each_day_def case_prod_beta comp_def)
  show "\<forall>date r. map_of (daily_data s) date = Some r \<longrightarrow>
            (\<exists>r'. map_of (daily_data (delete_habit habit True s)) date = Some r'
                  \<and> tasks r' = tasks r \<and> task_status r' = task_status r
                  \<and> map_of (day_habits r') habit = None
                  \<and> (\<forall>h. h \<noteq> habit \<longrightarrow> map_of (day_habits r') h = map_of (day_habits r) h))"
    by (simp add: eq map_of_for_each_day delete_conv)
  {
    assume "distinct (habits s)"
    then show "habit \<notin> set (habits (delete_habit habit True s))"
      by (simp add: eq for_each_day_fields)
  }
qed

theorem delete_habit_effect_witness:
  "''Read'' \<in> set (habits june_week) \<and> distinct (habits june_week)
   \<and> delete_habit ''Read'' False june_week = june_week
   \<and> habits (delete_habit ''Read'' True june_week) = [''Sleep'']
   \<and> task_templates (delete_habit ''Read'' True june_week) = [''A'', ''B'', ''C'']
   \<and> (\<exists>r r'. map_of (daily_data june_week) ''2024-06-04'' = Some r
         \<and> map_of (daily_data (delete_habit ''Read'' True june_week)) ''2024-06-04'' = Some r'
         \<and> tasks r' = tasks r \<and> task_status r' = task_status r
         \<and> map_of (day_habits r') ''Read'' = None
         \<and> map_of (day_habits r') ''Sleep'' = Some False)"
proof -
  let ?r = "\<lparr>tasks = [''A'', ''Shop''], task_status = [(''A'', False), (''Shop'', True)],
             day_habits = [(''Sleep'', False), (''Read'', True)]\<rparr>"
  have h1: "''Read'' \<in> set (habits june_week)" and h2: "distinct (habits june_week)"
    and h3: "map_of (daily_data june_week) ''2024-06-04'' = Some ?r"
    and h4: "habits june_week = [''Sleep'', ''Read'']"
    and h5: "task_templates june_week = [''A'', ''B'', ''C'']"
    by (simp_all add: june_week_def)
  from delete_habit_effect [of "''Read''" june_week False] h1 h2 h3 h4 h5
  show ?thesis by fastforce
qed

text \<open>
  A name that is only an orphaned key of a day, not a member of the list, stays where it
  is: \<open>orphan_store\<close> still has the flag of \<^verbatim>\<open>Read\<close> after \<^verbatim>\<open>delete_habit\<close>.
\<close>

theorem delete_habit_orphan_counterexample:
  "map_of (daily_data (delete_habit ''Read'' True orphan_store)) ''2024-06-03'' = Some orphan_day
   \<and> map_of (day_habits orphan_day) ''Read'' = Some True"
  by (simp add: delete_habit_def orphan_store_def orphan_day_def)

subsection \<open>Renaming a habit and renaming it back\<close>

lemma map_of_rename_key:
  "map_of (rename_key old new d) =
     ((map_of d)(old := None))(new \<mapsto> dict_get d old False)"
  by (simp add: rename_key_def dict_pop_def map_of_dict_set delete_conv')

lemma rename_key_back:
  "a \<noteq> b \<Longrightarrow> map_of (rename_key b a (rename_key a b d)) a = Some (dict_get d a False)"
  by (simp add: map_of_rename_key dict_get_def)

lemma edit_habit_renames:
  assumes "index (habits s) old = Inr idx" and "strip new = new" and "new \<noteq> []"
    and "new \<noteq> old" and "new \<notin> set (habits s)"
  shows "edit_habit old (Some new) s =
           for_each_day (\<lambda>r. r\<lparr>day_habits := rename_key old new (day_habits r)\<rparr>)
             (s\<lparr>habits := (habits s)[idx := new]\<rparr>)"
  using assms by (simp add: edit_habit_def)

text \<open>
  C5 (as the code has it): in a store whose habit names are unique, let \<open>a\<close> be a trimmed
  non-empty name of the global habit list and \<open>b\<close> a trimmed non-empty name that is not in
  the list. Renaming \<open>a\<close> to \<open>b\<close> and then \<open>b\<close> to \<open>a\<close> restores the global habit list,
  and every day that had a flag for \<open>a\<close> has the same flag for \<open>a\<close> again.
\<close>

theorem rename_habit_round_trip:
  assumes "a \<in> set (habits s)" and "strip a = a" and "a \<noteq> []" and "distinct (habits s)"
    and "strip b = b" and "b \<noteq> []" and "b \<notin> set (habits s)"
  shows "habits (edit_habit b (Some a) (edit_habit a (Some b) s)) = habits s
         \<and> (\<forall>date r v. map_of (daily_data s) date = Some r \<longrightarrow> map_of (day_habits r) a = Some v \<longrightarrow>
               (\<exists>r'. map_of (daily_data (edit_habit b (Some a) (edit_habit a (Some b) s))) date = Some r'
                      \<and> map_of (day_habits r') a = Some v))"
proof -
  from index_found [OF assms(1)] obtain idx where idx: "index (habits s) a = Inr idx"
    by (elim exE conjE)
  have ab: "a \<noteq> b"
  proof
    assume "a = b"
    with assms(1,7) show False by simp
  qed
  then have ba: "b \<noteq> a" by (rule not_sym)
  define s1 where "s1 = for_each_day (\<lambda>r. r\<lparr>day_habits := rename_key a b (day_habits r)\<rparr>)
               (s\<lparr>habits := (habits s)[idx := b]\<rparr>)"
  have first: "edit_habit a (Some b) s = s1"
    unfolding s1_def by (rule edit_habit_renames [OF idx assms(5) assms(6) ba assms(7)])
  have h1: "habits s1 = (habits s)[idx := b]"
    by (simp add: s1_def for_each_day_fields)
  have idx1: "index (habits s1) b = Inr idx"
    unfolding h1 by (rule index_of_replaced [OF idx assms(7)])
  have fresh: "a \<notin> set (habits s1)"
    unfolding h1 by (rule distinct_replaced [OF assms(4) idx ab])
  define s2 where "s2 = for_each_day (\<lambda>r. r\<lparr>day_habits := rename_key b a (day_habits r)\<rparr>)
               (s1\<lparr>habits := (habits s1)[idx := a]\<rparr>)"
  have second: "edit_habit b (Some a) s1 = s2"
    unfolding s2_def by (rule edit_habit_renames [OF idx1 assms(2) assms(3) ab fresh])
  have "habits s2 = ((habits s)[idx := b])[idx := a]"
    by (simp add: s2_def h1 for_each_day_fields)
  also have "\<dots> = habits s"
    using index_bound [OF idx] list_update_id [of "habits s" idx] by simp
  finally have list: "habits s2 = habits s" .
  have dd: "map_of (daily_data s2) date =
      map_option (\<lambda>r. r\<lparr>day_habits := rename_key b a (rename_key a b (day_habits r))\<rparr>)
        (map_of (daily_data s) date)" for date
    unfolding s2_def s1_def map_of_for_each_day_habits
    by (cases "map_of (daily_data s) date") simp_all
  have vals: "\<exists>r'. map_of (daily_data s2) date = Some r' \<and> map_of (day_habits r') a = Some v"
    if r: "map_of (daily_data s) date = Some r" and v: "map_of (day_habits r) a = Some v"
    for date r v
  proof -
    have "dict_get (day_habits r) a False = v" using v by (simp add: dict_get_def)
    then have "map_of (rename_key b a (rename_key a b (day_habits r))) a = Some v"
      using rename_key_back [OF ab] by simp
    then show ?thesis by (simp add: dd r)
  qed
  show ?thesis unfolding first second
  proof (intro conjI allI impI)
    show "habits s2 = habits s" by (rule list)
  next
    fix date r v
    assume "map_of (daily_data s) date = Some r" and "map_of (day_habits r) a = Some v"
    then show "\<exists>r'. map_of (daily_data s2) date = Some r' \<and> map_of (day_habits r') a = Some v"
      by (rule vals)
  qed
qed

theorem rename_habit_round_trip_witness:
  "''Sleep'' \<in> set (habits june_week) \<and> strip ''Sleep'' = ''Sleep'' \<and> distinct (habits june_week)
   \<and> strip ''Nap'' = ''Nap'' \<and> ''Nap'' \<notin> set (habits june_week)
   \<and> habits (edit_habit ''Sleep'' (Some ''Nap'') june_week) = [''Nap'', ''Read'']
   \<and> habits (edit_habit ''Nap'' (Some ''Sleep'') (edit_habit ''Sleep'' (Some ''Nap'') june_week))
       = [''Sleep'', ''Read'']
   \<and> (\<exists>r'. map_of (daily_data (edit_habit ''Nap'' (Some ''Sleep'')
                      (edit_habit ''Sleep'' (Some ''Nap'') june_week))) ''2024-06-03'' = Some r'
            \<and> map_of (day_habits r') ''Sleep'' = Some True)"
proof -
  let ?r = "\<lparr>tasks = [''A'', ''B'', ''C''],
             task_status = [(''A'', True), (''B'', True), (''C'', False)],
             day_habits = [(''Sleep'', True), (''Read'', False)]\<rparr>"
  have h1: "''Sleep'' \<in> set (habits june_week)" and h4: "distinct (habits june_week)"
    and h7: "''Nap'' \<notin> set (habits june_week)"
    and hl: "habits june_week = [''Sleep'', ''Read'']"
    and hr: "map_of (daily_data june_week) ''2024-06-03'' = Some ?r"
    by (simp_all add: june_week_def)
  have h2: "strip ''Sleep'' = ''Sleep''" and h5: "strip ''Nap'' = ''Nap''"
    by code_simp+
  have h3: "''Sleep'' \<noteq> []" and h6: "''Nap'' \<noteq> []" by simp_all
  have hv: "map_of (day_habits ?r) ''Sleep'' = Some True" by simp
  have mid: "habits (edit_habit ''Sleep'' (Some ''Nap'') june_week) = [''Nap'', ''Read'']"
    by code_simp
  note rt = rename_habit_round_trip [OF h1 h2 h3 h4 h5 h6 h7]
  from rt have list: "habits (edit_habit ''Nap'' (Some ''Sleep'')
      (edit_habit ''Sleep'' (Some ''Nap'') june_week)) = [''Sleep'', ''Read'']"
    by (simp add: hl)
  from rt hr hv have "\<exists>r'. map_of (daily_data (edit_habit ''Nap'' (Some ''Sleep'')
                      (edit_habit ''Sleep'' (Some ''Nap'') june_week))) ''2024-06-03'' = Some r'
            \<and> map_of (day_habits r') ''Sleep'' = Some True"
    by blast
  with h1 h2 h4 h5 h7 mid list show ?thesis by simp
qed

text \<open>
  A name of the list that is not trimmed does not come back: the dialog's text is stripped,
  so \<open>untrimmed_store\<close> ends with \<^verbatim>\<open>"Sleep"\<close> where it had \<^verbatim>\<open>" Sleep"\<close>.
\<close>

theorem rename_back_untrimmed_counterexample:
  "'' Sleep'' \<in> set (habits untrimmed_store) \<and> strip ''Nap'' = ''Nap''
   \<and> ''Nap'' \<notin> set (habits untrimmed_store)
   \<and> habits (edit_habit ''Nap'' (Some '' Sleep'') (edit_habit '' Sleep'' (Some ''Nap'') untrimmed_store))
       = [''Sleep'']
   \<and> habits untrimmed_store = ['' Sleep'']"
  by code_simp

subsection \<open>Initializing the week\<close>

lemma map_of_fold_false:
  "map_of (fold (\<lambda>n d. dict_set n False d) names d0) k
     = (if k \<in> set names then Some False else map_of d0 k)"
  by (induction names arbitrary: d0) (simp_all add: map_of_dict_set)

lemma map_of_all_false:
  "map_of (all_false names) k = (if k \<in> set names then Some False else None)"
  by (simp add: all_false_def map_of_fold_false)

lemma map_of_ensure_habits:
  "map_of (ensure_habits hs d) h
     = (case map_of d h of Some v \<Rightarrow> Some v | None \<Rightarrow> if h \<in> set hs then Some False else None)"
proof (induction hs arbitrary: d)
  case Nil
  then show ?case by (simp add: ensure_habits_def split: option.splits)
next
  case (Cons x hs)
  have step: "ensure_habits (x # hs) d
      = ensure_habits hs (if \<not> dict_has d x then dict_set x False d else d)"
    by (simp add: ensure_habits_def)
  show ?case
    unfolding step Cons.IH
    by (simp add: dict_has_def map_of_dict_set split: option.splits)
qed

lemma ensure_habits_id:
  "\<forall>h\<in>set hs. dict_has d h \<Longrightarrow> ensure_habits hs d = d"
  by (induction hs) (simp_all add: ensure_habits_def)

lemma dict_has_ensure_habits: "h \<in> set hs \<Longrightarrow> dict_has (ensure_habits hs d) h"
  by (cases "map_of d h") (simp_all add: dict_has_def map_of_ensure_habits)

lemma dict_has_all_false: "h \<in> set hs \<Longrightarrow> dict_has (all_false hs) h"
  by (simp add: dict_has_def map_of_all_false)

lemma dict_has_keys: "dict_has d k \<longleftrightarrow> k \<in> fst ` set d"
  by (simp add: dict_has_def map_of_eq_None_iff)

lemma init_record_idem: "init_record s (Some (init_record s ro)) = init_record s ro"
proof (cases ro)
  case None
  have "ensure_habits (habits s) (all_false (habits s)) = all_false (habits s)"
    by (rule ensure_habits_id) (simp add: dict_has_all_false)
  with None show ?thesis by (simp add: init_record_def fresh_day_def)
next
  case (Some r)
  have "ensure_habits (habits s) (ensure_habits (habits s) (day_habits r))
      = ensure_habits (habits s) (day_habits r)"
    by (rule ensure_habits_id) (simp add: dict_has_ensure_habits)
  with Some show ?thesis by (simp add: init_record_def)
qed

lemma initialize_day_fields:
  "habits (initialize_day date s) = habits s"
  "task_templates (initialize_day date s) = task_templates s"
  "week_start_date (initialize_day date s) = week_start_date s"
  by (simp_all add: initialize_day_def split: option.splits)

lemma initialize_day_lookup:
  "map_of (daily_data (initialize_day date s)) d
     = (if d = date then Some (init_record s (map_of (daily_data s) date))
        else map_of (daily_data s) d)"
  by (simp add: initialize_day_def init_record_def fresh_day_def map_of_dict_set
      split: option.splits)

lemma init_record_cong:
  "habits s' = habits s \<Longrightarrow> task_templates s' = task_templates s \<Longrightarrow>
     init_record s' ro = init_record s ro"
  by (cases ro) (simp_all add: init_record_def fresh_day_def)

lemma week_date_cong: "week_start_date s' = week_start_date s \<Longrightarrow> week_date s' i = week_date s i"
  by (simp add: week_date_def)

text \<open>The loop over the days of a week whose dates all exist.\<close>

lemma initialize_days_returns:
  assumes "\<forall>j\<in>set js. week_date s j = Inr (key j)"
  shows "\<exists>s'. initialize_days js s = (Returned, s')
           \<and> habits s' = habits s \<and> task_templates s' = task_templates s
           \<and> week_start_date s' = week_start_date s
           \<and> (\<forall>d. map_of (daily_data s') d
                    = (if d \<in> key ` set js then Some (init_record s (map_of (daily_data s) d))
                       else map_of (daily_data s) d))"
  using assms
proof (induction js arbitrary: s)
  case Nil
  then show ?case by simp
next
  case (Cons j js)
  define s1 where "s1 = initialize_day (key j) s"
  have f: "habits s1 = habits s" "task_templates s1 = task_templates s"
    "week_start_date s1 = week_start_date s"
    unfolding s1_def by (rule initialize_day_fields)+
  have ir: "init_record s1 = init_record s"
    by (rule ext) (rule init_record_cong [OF f(1) f(2)])
  have look: "map_of (daily_data s1) d
     = (if d = key j then Some (init_record s (map_of (daily_data s) (key j)))
        else map_of (daily_data s) d)" for d
    unfolding s1_def by (rule initialize_day_lookup)
  have j: "week_date s j = Inr (key j)" using Cons.prems by simp
  have "\<forall>i\<in>set js. week_date s1 i = Inr (key i)"
    using Cons.prems by (simp add: week_date_cong [OF f(3)])
  from Cons.IH [OF this] obtain s' where
    run: "initialize_days js s1 = (Returned, s')"
    and g: "habits s' = habits s1" "task_templates s' = task_templates s1"
      "week_start_date s' = week_start_date s1"
    and dd: "\<And>d. map_of (daily_data s') d
                = (if d \<in> key ` set js then Some (init_record s1 (map_of (daily_data s1) d))
                   else map_of (daily_data s1) d)"
    by blast
  have step: "initialize_days (j # js) s = (Returned, s')"
    by (simp add: j run s1_def [symmetric])
  have final: "map_of (daily_data s') d
      = (if d \<in> key ` set (j # js) then Some (init_record s (map_of (daily_data s) d))
         else map_of (daily_data s) d)" for d
  proof (cases "d = key j")
    case True
    with look have "map_of (daily_data s1) d = Some (init_record s (map_of (daily_data s) d))"
      by simp
    with True show ?thesis by (simp add: dd ir init_record_idem)
  next
    case False
    with look have "map_of (daily_data s1) d = map_of (daily_data s) d" by simp
    with False show ?thesis by (simp add: dd ir)
  qed
  show ?case
  proof (intro exI conjI allI)
    show "initialize_days (j # js) s = (Returned, s')" by (rule step)
    show "habits s' = habits s" by (simp add: g f)
    show "task_templates s' = task_templates s" by (simp add: g f)
    show "week_start_date s' = week_start_date s" by (simp add: g f)
    show "map_of (daily_data s') d
      = (if d \<in> key ` set (j # js) then Some (init_record s (map_of (daily_data s) d))
         else map_of (daily_data s) d)" for d
      by (rule final)
  qed
qed

lemma weekday_range: "0 \<le> weekday d \<and> weekday d \<le> 6"
  by (simp add: weekday_def)

lemma weekday_below: "1 \<le> d \<Longrightarrow> weekday d \<le> d - 1"
  unfolding weekday_def by presburger

lemma get_week_start_Inr:
  "get_week_start today = Inr ws \<Longrightarrow> ws = today - weekday today"
  by (simp add: get_week_start_def add_days_def split: if_splits)

lemma week_date_Inr:
  "week_date s i = Inr date \<Longrightarrow> date = strftime (week_start_date s + int i)"
  by (simp add: week_date_def add_days_def split: if_splits)

lemma week_date_in_range:
  "1 \<le> week_start_date s \<Longrightarrow> week_start_date s + 6 \<le> MAXORDINAL \<Longrightarrow> i < 7 \<Longrightarrow>
     week_date s i = Inr (strftime (week_start_date s + int i))"
  by (simp add: week_date_def add_days_def)

lemma initialize_days_Returned:
  "initialize_days js s = (Returned, s') \<Longrightarrow> j \<in> set js \<Longrightarrow>
     week_date s j = Inr (strftime (week_start_date s + int j))"
proof (induction js arbitrary: s)
  case Nil
  then show ?case by simp
next
  case (Cons k js)
  from Cons.prems(1) obtain date where k: "week_date s k = Inr date"
    and rest: "initialize_days js (initialize_day date s) = (Returned, s')"
    by (auto split: sum.splits)
  show ?case
  proof (cases "j = k")
    case True
    with k week_date_Inr [OF k] show ?thesis by simp
  next
    case False
    with Cons.prems(2) have "j \<in> set js" by simp
    from Cons.IH [OF rest this] show ?thesis
      by (simp add: week_date_def initialize_day_fields)
  qed
qed

lemma initializeWeek_Returned:
  assumes "initializeWeek today s = (Returned, s')"
  shows "habits s' = habits s \<and> task_templates s' = task_templates s
    \<and> week_start_date s' = today - weekday today
    \<and> (\<forall>i<7. map_of (daily_data s') (strftime (today - weekday today + int i))
          = Some (init_record s (map_of (daily_data s) (strftime (today - weekday today + int i)))))"
proof -
  define ws where "ws = today - weekday today"
  define s0 where "s0 = s\<lparr>week_start_date := ws\<rparr>"
  from assms have gw: "get_week_start today = Inr ws"
    and run: "initialize_days [0..<7] s0 = (Returned, s')"
    by (auto simp add: initializeWeek_def initialize_week_data_def s0_def ws_def
        split: sum.splits dest: get_week_start_Inr)
  have w0: "week_start_date s0 = ws" by (simp add: s0_def)
  have keys: "\<forall>j\<in>set [0..<7]. week_date s0 j = Inr (strftime (ws + int j))"
    using initialize_days_Returned [OF run] by (simp add: w0)
  from initialize_days_returns [of "[0..<7]" s0 "\<lambda>j. strftime (ws + int j)", OF keys] run
  have f: "habits s' = habits s0" "task_templates s' = task_templates s0"
      "week_start_date s' = week_start_date s0"
    and dd: "\<And>d. map_of (daily_data s') d
        = (if d \<in> (\<lambda>j. strftime (ws + int j)) ` set [0..<7]
           then Some (init_record s0 (map_of (daily_data s0) d)) else map_of (daily_data s0) d)"
    by auto
  have ir: "init_record s0 = init_record s"
    by (rule ext) (rule init_record_cong, simp_all add: s0_def)
  have d0: "daily_data s0 = daily_data s" by (simp add: s0_def)
  have "map_of (daily_data s') (strftime (ws + int i))
      = Some (init_record s (map_of (daily_data s) (strftime (ws + int i))))" if "i < 7" for i
  proof -
    from that have "i \<in> set [0..<7]" by simp
    then have "strftime (ws + int i) \<in> (\<lambda>j. strftime (ws + int j)) ` set [0..<7]"
      by (rule imageI)
    then show ?thesis by (simp only: dd ir d0 if_True)
  qed
  then show ?thesis
    unfolding ws_def [symmetric] by (simp add: f s0_def)
qed

lemma initializeWeek_returns:
  assumes "1 \<le> today" and "today - weekday today + 6 \<le> MAXORDINAL"
  shows "\<exists>s'. initializeWeek today s = (Returned, s')"
proof -
  define ws where "ws = today - weekday today"
  define s0 where "s0 = s\<lparr>week_start_date := ws\<rparr>"
  have lo: "1 \<le> ws" using weekday_below [OF assms(1)] by (simp add: ws_def)
  have hi: "ws + 6 \<le> MAXORDINAL" using assms(2) by (simp add: ws_def)
  have "ws \<le> MAXORDINAL" using hi by simp
  with lo have gw: "get_week_start today = Inr ws"
    by (simp add: get_week_start_def add_days_def ws_def)
  have "\<forall>j\<in>set [0..<7]. week_date s0 j = Inr (strftime (ws + int j))"
    using lo hi by (simp add: week_date_in_range s0_def)
  from initialize_days_returns [of "[0..<7]" s0 "\<lambda>j. strftime (ws + int j)", OF this]
  obtain s' where "initialize_days [0..<7] s0 = (Returned, s')" by blast
  then have "initializeWeek today s = (Returned, s')"
    by (simp add: initializeWeek_def initialize_week_data_def gw s0_def)
  then show ?thesis ..
qed

lemma digit_chars:
  "char_of (48::nat) = CHR ''0''" "char_of (49::nat) = CHR ''1''" "char_of (50::nat) = CHR ''2''"
  "char_of (51::nat) = CHR ''3''" "char_of (52::nat) = CHR ''4''" "char_of (53::nat) = CHR ''5''"
  "char_of (54::nat) = CHR ''6''" "char_of (55::nat) = CHR ''7''" "char_of (56::nat) = CHR ''8''"
  "char_of (57::nat) = CHR ''9''"
  by code_simp+

lemma decimal_numeral:
  "decimal (numeral k) =
     (if numeral k < (10::nat) then [digit (int (numeral k))]
      else decimal (numeral k div 10) @ [digit (int (numeral k))])"
  by (rule decimal.simps)

lemmas strftime_eval = strftime_def ord2ymd_def DAYS_BEFORE_MONTH_def DAYS_IN_MONTH_def
  digit_def digit_chars decimal_numeral Let_def

lemma june_dates:
  "strftime 739040 = ''2024-06-03''" "strftime 739041 = ''2024-06-04''"
  "strftime 739042 = ''2024-06-05''" "strftime 739043 = ''2024-06-06''"
  "strftime 739044 = ''2024-06-07''" "strftime 739045 = ''2024-06-08''"
  "strftime 739046 = ''2024-06-09''"
  by (simp_all add: strftime_eval)

text \<open>
  C4: when \<^verbatim>\<open>initializeWeek\<close> has returned, each of the seven dates from the week's Monday
  on has a record. Where the store had none, the record's task list is the template list
  and its task status and habit flags are false for exactly those tasks and the global
  habits; where it had one, the tasks and the task status are the old ones and the habit
  flags are the old ones plus a false flag for every global habit that was missing. Either
  way the record's habit keys include the global habit list, and the global lists are
  unchanged. The call returns for every date whose week ends by 9999-12-31 (the addition
  of \<^verbatim>\<open>timedelta\<close> raises \<^verbatim>\<open>OverflowError\<close> after that day).
\<close>

theorem initialize_week_materializes:
  "(initializeWeek today s = (Returned, s') \<and> i < 7
      \<and> date = strftime (week_start_date s' + int i) \<longrightarrow>
      week_start_date s' = today - weekday today
      \<and> habits s' = habits s \<and> task_templates s' = task_templates s
      \<and> (\<exists>r'. map_of (daily_data s') date = Some r'
            \<and> set (habits s') \<subseteq> fst ` set (day_habits r')
            \<and> (map_of (daily_data s) date = None \<longrightarrow>
                  tasks r' = task_templates s
                  \<and> (\<forall>t. map_of (task_status r') t
                           = (if t \<in> set (task_templates s) then Some False else None))
                  \<and> (\<forall>h. map_of (day_habits r') h
                           = (if h \<in> set (habits s) then Some False else None)))
            \<and> (\<forall>r. map_of (daily_data s) date = Some r \<longrightarrow>
                  tasks r' = tasks r \<and> task_status r' = task_status r
                  \<and> (\<forall>h. map_of (day_habits r') h
                           = (case map_of (day_habits r) h of
                                Some v \<Rightarrow> Some v
                              | None \<Rightarrow> if h \<in> set (habits s) then Some False else None)))))
   \<and> (1 \<le> today \<and> today - weekday today + 6 \<le> MAXORDINAL \<longrightarrow>
        (\<exists>s'. initializeWeek today s = (Returned, s')))"
proof (intro conjI impI)
  assume "1 \<le> today \<and> today - weekday today + 6 \<le> MAXORDINAL"
  then show "\<exists>s'. initializeWeek today s = (Returned, s')"
    by (simp add: initializeWeek_returns)
next
  assume a: "initializeWeek today s = (Returned, s') \<and> i < 7
      \<and> date = strftime (week_start_date s' + int i)"
  note R = initializeWeek_Returned [of today s s']
  from a R show "week_start_date s' = today - weekday today" by simp
  from a R show hs: "habits s' = habits s" by simp
  from a R show "task_templates s' = task_templates s" by simp
  define r' where "r' = init_record s (map_of (daily_data s) date)"
  from a R have ws: "week_start_date s' = today - weekday today" by simp
  from a R have "map_of (daily_data s') (strftime (today - weekday today + int i))
      = Some (init_record s (map_of (daily_data s) (strftime (today - weekday today + int i))))"
    by simp
  with a ws have look: "map_of (daily_data s') date = Some r'"
    by (simp add: r'_def)
  have keys: "set (habits s') \<subseteq> fst ` set (day_habits r')"
    unfolding hs
  proof
    fix h assume "h \<in> set (habits s)"
    then have "dict_has (day_habits r') h"
      by (cases "map_of (daily_data s) date")
        (simp_all add: r'_def init_record_def fresh_day_def dict_has_all_false
          dict_has_ensure_habits)
    then show "h \<in> fst ` set (day_habits r')" by (simp add: dict_has_keys)
  qed
  have new: "map_of (daily_data s) date = None \<longrightarrow>
      tasks r' = task_templates s
      \<and> (\<forall>t. map_of (task_status r') t = (if t \<in> set (task_templates s) then Some False else None))
      \<and> (\<forall>h. map_of (day_habits r') h = (if h \<in> set (habits s) then Some False else None))"
    by (simp add: r'_def init_record_def fresh_day_def map_of_all_false)
  have old: "\<forall>r. map_of (daily_data s) date = Some r \<longrightarrow>
      tasks r' = tasks r \<and> task_status r' = task_status r
      \<and> (\<forall>h. map_of (day_habits r') h
               = (case map_of (day_habits r) h of
                    Some v \<Rightarrow> Some v
                  | None \<Rightarrow> if h \<in> set (habits s) then Some False else None))"
    by (simp add: r'_def init_record_def map_of_ensure_habits)
  from look keys new old
  show "\<exists>r'. map_of (daily_data s') date = Some r'
            \<and> set (habits s') \<subseteq> fst ` set (day_habits r')
            \<and> (map_of (daily_data s) date = None \<longrightarrow>
                  tasks r' = task_templates s
                  \<and> (\<forall>t. map_of (task_status r') t
                           = (if t \<in> set (task_templates s) then Some False else None))
                  \<and> (\<forall>h. map_of (day_habits r') h
                           = (if h \<in> set (habits s) then Some False else None)))
            \<and> (\<forall>r. map_of (daily_data s) date = Some r \<longrightarrow>
                  tasks r' = tasks r \<and> task_status r' = task_status r
                  \<and> (\<forall>h. map_of (day_habits r') h
                           = (case map_of (day_habits r) h of
                                Some v \<Rightarrow> Some v
                              | None \<Rightarrow> if h \<in> set (habits s) then Some False else None)))"
    by (intro exI [of _ r'] conjI)
qed

theorem initialize_week_materializes_witness:
  "1 \<le> (739040::int) \<and> 739040 - weekday 739040 + 6 \<le> MAXORDINAL
   \<and> map_of (daily_data stale_week) ''2024-06-03'' = Some stale_day
   \<and> map_of (daily_data stale_week) ''2024-06-04'' = None
   \<and> (\<exists>s'. initializeWeek 739040 stale_week = (Returned, s')
         \<and> week_start_date s' = 739040
         \<and> strftime (week_start_date s' + int 0) = ''2024-06-03''
         \<and> strftime (week_start_date s' + int 1) = ''2024-06-04''
         \<and> habits s' = [''Sleep'', ''Read'']
         \<and> (\<exists>r0. map_of (daily_data s') ''2024-06-03'' = Some r0
                \<and> tasks r0 = [''X''] \<and> task_status r0 = [(''X'', True)]
                \<and> map_of (day_habits r0) ''Old'' = Some True
                \<and> map_of (day_habits r0) ''Sleep'' = Some False
                \<and> map_of (day_habits r0) ''Read'' = Some False)
         \<and> (\<exists>r1. map_of (daily_data s') ''2024-06-04'' = Some r1
                \<and> tasks r1 = [''A'']
                \<and> map_of (task_status r1) ''A'' = Some False
                \<and> map_of (day_habits r1) ''Sleep'' = Some False
                \<and> map_of (day_habits r1) ''Read'' = Some False))"
proof -
  have wd: "weekday 739040 = 0" by (simp add: weekday_def)
  have rng: "1 \<le> (739040::int) \<and> 739040 - weekday 739040 + 6 \<le> MAXORDINAL"
    by (simp add: wd MAXORDINAL_def)
  have mon: "map_of (daily_data stale_week) ''2024-06-03'' = Some stale_day"
    and tue: "map_of (daily_data stale_week) ''2024-06-04'' = None"
    and hs: "habits stale_week = [''Sleep'', ''Read'']"
    and ts: "task_templates stale_week = [''A'']"
    by (simp_all add: stale_week_def)
  have sd: "tasks stale_day = [''X'']" "task_status stale_day = [(''X'', True)]"
    "map_of (day_habits stale_day) ''Old'' = Some True"
    "map_of (day_habits stale_day) ''Sleep'' = None"
    "map_of (day_habits stale_day) ''Read'' = None"
    by (simp_all add: stale_day_def)
  have "\<exists>s'. initializeWeek 739040 stale_week = (Returned, s')"
    by (rule initialize_week_materializes [of 739040 stale_week, THEN conjunct2, THEN mp, OF rng])
  then obtain s' where run: "initializeWeek 739040 stale_week = (Returned, s')" ..
  have A: "week_start_date s' = 739040 - weekday 739040"
    using initialize_week_materializes [of 739040 stale_week s' 0
        "strftime (week_start_date s' + int 0)"] run
    by simp
  then have ws: "week_start_date s' = 739040" by (simp add: wd)
  have d0: "strftime (week_start_date s' + int 0) = ''2024-06-03''"
    and d1: "strftime (week_start_date s' + int 1) = ''2024-06-04''"
    by (simp_all add: ws june_dates)
  have pre0: "initializeWeek 739040 stale_week = (Returned, s') \<and> (0::nat) < 7
      \<and> ''2024-06-03'' = strftime (week_start_date s' + int 0)"
    using run d0 by simp
  have pre1: "initializeWeek 739040 stale_week = (Returned, s') \<and> (1::nat) < 7
      \<and> ''2024-06-04'' = strftime (week_start_date s' + int 1)"
    using run d1 by simp
  note full0 = initialize_week_materializes [of 739040 stale_week s' 0 "''2024-06-03''",
      THEN conjunct1, THEN mp, OF pre0]
  note full1 = initialize_week_materializes [of 739040 stale_week s' 1 "''2024-06-04''",
      THEN conjunct1, THEN mp, OF pre1]
  from full0 have hs': "habits s' = habits stale_week" by (elim conjE)
  from full0 have "\<exists>r0. map_of (daily_data s') ''2024-06-03'' = Some r0
            \<and> set (habits s') \<subseteq> fst ` set (day_habits r0)
            \<and> (map_of (daily_data stale_week) ''2024-06-03'' = None \<longrightarrow>
                  tasks r0 = task_templates stale_week
                  \<and> (\<forall>t. map_of (task_status r0) t
                           = (if t \<in> set (task_templates stale_week) then Some False else None))
                  \<and> (\<forall>h. map_of (day_habits r0) h
                           = (if h \<in> set (habits stale_week) then Some False else None)))
            \<and> (\<forall>r. map_of (daily_data stale_week) ''2024-06-03'' = Some r \<longrightarrow>
                  tasks r0 = tasks r \<and> task_status r0 = task_status r
                  \<and> (\<forall>h. map_of (day_habits r0) h
                           = (case map_of (day_habits r) h of
                                Some v \<Rightarrow> Some v
                              | None \<Rightarrow> if h \<in> set (habits stale_week) then Some False else None)))"
    by (elim conjE)
  then obtain r0 where all0: "map_of (daily_data s') ''2024-06-03'' = Some r0
            \<and> set (habits s') \<subseteq> fst ` set (day_habits r0)
            \<and> (map_of (daily_data stale_week) ''2024-06-03'' = None \<longrightarrow>
                  tasks r0 = task_templates stale_week
                  \<and> (\<forall>t. map_of (task_status r0) t
                           = (if t \<in> set (task_templates stale_week) then Some False else None))
                  \<and> (\<forall>h. map_of (day_habits r0) h
                           = (if h \<in> set (habits stale_week) then Some False else None)))
            \<and> (\<forall>r. map_of (daily_data stale_week) ''2024-06-03'' = Some r \<longrightarrow>
                  tasks r0 = tasks r \<and> task_status r0 = task_status r
                  \<and> (\<forall>h. map_of (day_habits r0) h
                           = (case map_of (day_habits r) h of
                                Some v \<Rightarrow> Some v
                              | None \<Rightarrow> if h \<in> set (habits stale_week) then Some False else None)))" ..
  from full1 have "\<exists>r1. map_of (daily_data s') ''2024-06-04'' = Some r1
            \<and> set (habits s') \<subseteq> fst ` set (day_habits r1)
            \<and> (map_of (daily_data stale_week) ''2024-06-04'' = None \<longrightarrow>
                  tasks r1 = task_templates stale_week
                  \<and> (\<forall>t. map_of (task_status r1) t
                           = (if t \<in> set (task_templates stale_week) then Some False else None))
                  \<and> (\<forall>h. map_of (day_habits r1) h
                           = (if h \<in> set (habits stale_week) then Some False else None)))
            \<and> (\<forall>r. map_of (daily_data stale_week) ''2024-06-04'' = Some r \<longrightarrow>
                  tasks r1 = tasks r \<and> task_status r1 = task_status r
                  \<and> (\<forall>h. map_of (day_habits r1) h
                           = (case map_of (day_habits r) h of
                                Some v \<Rightarrow> Some v
                              | None \<Rightarrow> if h \<in> set (habits stale_week) then Some False else None)))"
    by (elim conjE)
  then obtain r1 where all1: "map_of (daily_data s') ''2024-06-04'' = Some r1
            \<and> set (habits s') \<subseteq> fst ` set (day_habits r1)
            \<and> (map_of (daily_data stale_week) ''2024-06-04'' = None \<longrightarrow>
                  tasks r1 = task_templates stale_week
                  \<and> (\<forall>t. map_of (task_status r1) t
                           = (if t \<in> set (task_templates stale_week) then Some False else None))
                  \<and> (\<forall>h. map_of (day_habits r1) h
                           = (if h \<in> set (habits stale_week) then Some False else None)))
            \<and> (\<forall>r. map_of (daily_data stale_week) ''2024-06-04'' = Some r \<longrightarrow>
                  tasks r1 = tasks r \<and> task_status r1 = task_status r
                  \<and> (\<forall>h. map_of (day_habits r1) h
                           = (case map_of (day_habits r) h of
                                Some v \<Rightarrow> Some v
                              | None \<Rightarrow> if h \<in> set (habits stale_week) then Some False else None)))" ..
  from all0 have l0: "map_of (daily_data s') ''2024-06-03'' = Some r0" by (rule conjunct1)
  from all1 have l1: "map_of (daily_data s') ''2024-06-04'' = Some r1" by (rule conjunct1)
  from all0 have o0: "\<forall>r. map_of (daily_data stale_week) ''2024-06-03'' = Some r \<longrightarrow>
                  tasks r0 = tasks r \<and> task_status r0 = task_status r
                  \<and> (\<forall>h. map_of (day_habits r0) h
                           = (case map_of (day_habits r) h of
                                Some v \<Rightarrow> Some v
                              | None \<Rightarrow> if h \<in> set (habits stale_week) then Some False else None))"
    by (elim conjE)
  from o0 [THEN spec, of stale_day] mon have X0: "tasks r0 = tasks stale_day \<and> task_status r0 = task_status stale_day
                  \<and> (\<forall>h. map_of (day_habits r0) h
                           = (case map_of (day_habits stale_day) h of
                                Some v \<Rightarrow> Some v
                              | None \<Rightarrow> if h \<in> set (habits stale_week) then Some False else None))"
    by (rule mp)
  from all1 have i1: "map_of (daily_data stale_week) ''2024-06-04'' = None \<longrightarrow>
                  tasks r1 = task_templates stale_week
                  \<and> (\<forall>t. map_of (task_status r1) t
                           = (if t \<in> set (task_templates stale_week) then Some False else None))
                  \<and> (\<forall>h. map_of (day_habits r1) h
                           = (if h \<in> set (habits stale_week) then Some False else None))"
    by (elim conjE)
  from i1 tue have X1: "tasks r1 = task_templates stale_week
                  \<and> (\<forall>t. map_of (task_status r1) t
                           = (if t \<in> set (task_templates stale_week) then Some False else None))
                  \<and> (\<forall>h. map_of (day_habits r1) h
                           = (if h \<in> set (habits stale_week) then Some False else None))"
    by (rule mp)
  from X0 have a0: "tasks r0 = tasks stale_day" by (elim conjE)
  from X0 have b0: "task_status r0 = task_status stale_day" by (elim conjE)
  from X0 have c0: "\<forall>h. map_of (day_habits r0) h
                           = (case map_of (day_habits stale_day) h of
                                Some v \<Rightarrow> Some v
                              | None \<Rightarrow> if h \<in> set (habits stale_week) then Some False else None)"
    by (elim conjE)
  from X1 have a1: "tasks r1 = task_templates stale_week" by (elim conjE)
  from X1 have b1: "\<forall>t. map_of (task_status r1) t
                           = (if t \<in> set (task_templates stale_week) then Some False else None)"
    by (elim conjE)
  from X1 have c1: "\<forall>h. map_of (day_habits r1) h
                           = (if h \<in> set (habits stale_week) then Some False else None)"
    by (elim conjE)
  have e0: "\<exists>r0. map_of (daily_data s') ''2024-06-03'' = Some r0
                \<and> tasks r0 = [''X''] \<and> task_status r0 = [(''X'', True)]
                \<and> map_of (day_habits r0) ''Old'' = Some True
                \<and> map_of (day_habits r0) ''Sleep'' = Some False
                \<and> map_of (day_habits r0) ''Read'' = Some False"
  proof (intro exI [of _ r0] conjI)
    show "map_of (daily_data s') ''2024-06-03'' = Some r0" by (rule l0)
    show "tasks r0 = [''X'']" by (simp add: a0 sd)
    show "task_status r0 = [(''X'', True)]" by (simp add: b0 sd)
    show "map_of (day_habits r0) ''Old'' = Some True" by (simp add: c0 sd)
    show "map_of (day_habits r0) ''Sleep'' = Some False" by (simp add: c0 sd hs)
    show "map_of (day_habits r0) ''Read'' = Some False" by (simp add: c0 sd hs)
  qed
  have e1: "\<exists>r1. map_of (daily_data s') ''2024-06-04'' = Some r1
                \<and> tasks r1 = [''A'']
                \<and> map_of (task_status r1) ''A'' = Some False
                \<and> map_of (day_habits r1) ''Sleep'' = Some False
                \<and> map_of (day_habits r1) ''Read'' = Some False"
  proof (intro exI [of _ r1] conjI)
    show "map_of (daily_data s') ''2024-06-04'' = Some r1" by (rule l1)
    show "tasks r1 = [''A'']" by (simp add: a1 ts)
    show "map_of (task_status r1) ''A'' = Some False" by (simp add: b1 ts)
    show "map_of (day_habits r1) ''Sleep'' = Some False" by (simp add: c1 hs)
    show "map_of (day_habits r1) ''Read'' = Some False" by (simp add: c1 hs)
  qed
  have hl: "habits s' = [''Sleep'', ''Read'']" using hs' hs by simp
  show ?thesis
  proof (intro conjI exI [of _ s'])
    show "1 \<le> (739040::int)" by simp
    show "739040 - weekday 739040 + 6 \<le> MAXORDINAL" using rng by (rule conjunct2)
  qed (rule mon tue run ws d0 d1 hl e0 e1)+
qed

subsection \<open>Percentages\<close>

lemma bit_length_numeral:
  "bit_length (numeral n) = Suc (bit_length (numeral n div 2))"
  "bit_length 0 = 0" "bit_length 1 = Suc 0" "bit_length (Suc 0) = Suc 0"
  by (simp_all add: bit_length.simps)

lemmas float_eval = int_percent_def true_div_def float_mul_def float_of_int_def
  round_to_double_def round_half_even_def py_int_def bit_length_numeral Let_def


lemma int_percent_29_of_50: "int_percent 29 50 = Inr 57"
  by (simp add: float_eval)

lemma int_percent_zero_of_one: "int_percent 0 1 = Inr 0"
  by (simp add: float_eval)



lemma int_percent_total: "t \<noteq> 0 \<Longrightarrow> \<exists>p. int_percent c t = Inr p"
  by (simp add: int_percent_def true_div_def)

lemma day_percent_total: "\<exists>p. day_percent r = Inr p"
  by (simp add: day_percent_def int_percent_total)

lemma day_percent_no_tasks: "tasks r = [] \<Longrightarrow> day_percent r = Inr 0"
  by (simp add: day_percent_def completed_count_def int_percent_zero_of_one)

lemma weekly_percent_no_tasks:
  "weekly_counts s = Inr (0, completed_tasks) \<Longrightarrow> weekly_percent s = Inr 0"
  by (simp add: weekly_percent_def)

lemma weekly_percent_never_divides_by_zero: "weekly_percent s \<noteq> Inl ZeroDivisionError"
proof (cases "weekly_counts s")
  case (Inl e)
  have nz: "weekly_loop s js acc \<noteq> Inl ZeroDivisionError" for js acc
  proof (induction js arbitrary: acc)
    case Nil
    then show ?case by (cases acc) simp
  next
    case (Cons j js)
    show ?case
      by (cases acc)
        (simp add: Cons.IH week_date_def add_days_def split: sum.splits option.splits)
  qed
  from nz [of "[0..<7]" "(0, 0)"] Inl show ?thesis
    by (simp add: weekly_percent_def weekly_counts_def)
next
  case (Inr p)
  obtain t c where p: "p = (t, c)" by (cases p)
  show ?thesis
  proof (cases "0 < t")
    case True
    then have "int t \<noteq> 0" by simp
    from int_percent_total [OF this] obtain q where "int_percent (int c) (int t) = Inr q" ..
    with Inr p True show ?thesis by (simp add: weekly_percent_def)
  next
    case False
    with Inr p show ?thesis by (simp add: weekly_percent_def)
  qed
qed

lemma full_week_dates:
  "week_date full_week 0 = Inr ''2024-06-03''" "week_date full_week (Suc 0) = Inr ''2024-06-04''"
  "week_date full_week 2 = Inr ''2024-06-05''" "week_date full_week 3 = Inr ''2024-06-06''"
  "week_date full_week 4 = Inr ''2024-06-07''" "week_date full_week 5 = Inr ''2024-06-08''"
  "week_date full_week 6 = Inr ''2024-06-09''"
  by (simp_all add: week_date_def add_days_def MAXORDINAL_def full_week_def june_dates)

lemma full_week_days:
  "map_of (daily_data full_week) ''2024-06-03'' = Some (all_done\<lparr>tasks := letters @ [''H'']\<rparr>)"
  "map_of (daily_data full_week) ''2024-06-04'' = Some all_done"
  "map_of (daily_data full_week) ''2024-06-05'' = Some all_done"
  "map_of (daily_data full_week) ''2024-06-06'' = Some half_done"
  "map_of (daily_data full_week) ''2024-06-07'' = Some half_done"
  "map_of (daily_data full_week) ''2024-06-08'' = Some none_done"
  "map_of (daily_data full_week) ''2024-06-09'' = Some none_done"
  by (simp_all add: full_week_def)

lemma week_indices: "[0..<7] = [0, Suc 0, 2, 3, 4, 5, 6]"
  by (simp add: numeral_eq_Suc)

lemma full_week_counts: "weekly_counts full_week = Inr (50, 29)"
proof -
  have counts: "completed_count (all_done\<lparr>tasks := letters @ [''H'']\<rparr>) = 7"
    "completed_count all_done = 7" "completed_count half_done = 4" "completed_count none_done = 0"
    "length letters = 7"
    by (simp_all add: completed_count_def all_done_def half_done_def none_done_def letters_def
        dict_get_def)
  have lens: "tasks all_done = letters" "tasks half_done = letters" "tasks none_done = letters"
    by (simp_all add: all_done_def half_done_def none_done_def)
  show ?thesis
    unfolding weekly_counts_def week_indices
    by (simp add: full_week_dates full_week_days counts lens)
qed

text \<open>
  C7 (where the code departs from it): in \<open>full_week\<close> 29 of the 50 tasks of the week are
  done, which is 58 per cent exactly, and \<^verbatim>\<open>int((completed_tasks / total_tasks * 100))\<close>
  is 57: the quotient \<^verbatim>\<open>29 / 50\<close> is the double just below 0.58 and its product with 100 is
  57.99999999999999.
\<close>

theorem weekly_percent_29_of_50:
  "weekly_counts full_week = Inr (50, 29) \<and> weekly_percent full_week = Inr 57
   \<and> 100 * (29::int) div 50 = 58"
  by (simp add: weekly_percent_def full_week_counts int_percent_29_of_50)

lemma busy_day_counts: "length (tasks busy_day) = 50" "completed_count busy_day = 29"
  by (simp_all add: busy_day_def alphabet_def completed_count_def dict_get_def)

text \<open>
  C1 (where the code departs from it): \<open>busy_day\<close> has 50 tasks of which 29 are done, 58 per
  cent exactly, and \<^verbatim>\<open>int((completed / total) * 100)\<close> is 57 for it, for the same reason.
\<close>

theorem day_percent_29_of_50:
  "length (tasks busy_day) = 50 \<and> completed_count busy_day = 29
   \<and> day_percent busy_day = Inr 57
   \<and> 100 * int (completed_count busy_day) div int (length (tasks busy_day)) = 58"
proof -
  have "tasks busy_day \<noteq> []"
  proof
    assume "tasks busy_day = []"
    then have "length (tasks busy_day) = 0" by simp
    with busy_day_counts(1) show False by simp
  qed
  then have "day_percent busy_day = Inr 57"
    by (simp add: day_percent_def busy_day_counts int_percent_29_of_50)
  then show ?thesis by (simp add: busy_day_counts)
qed

subsection \<open>The weekly rate of a habit\<close>











end
